theory Spec2Isabelle
  imports Main "HOL-Library.Sublist"
begin

section \<open>Shared constants (cdk/lib/utils/constants.ts)\<close>

text \<open>
  JavaScript strings are modelled as \<^typ>\<open>string\<close>: lists of code units below 256.
  A template literal over string arguments is list concatenation.
\<close>

definition RESOURCE_PREFIX :: string where
  "RESOURCE_PREFIX = ''prod-aws-captions''"

text \<open>\<open>keyof typeof TABLE_NAMES\<close> and the table of names it indexes.\<close>

datatype TableType = TABLE_VIDEO | TABLE_CAPTION | TABLE_CONFIG

fun TABLE_NAMES :: "TableType \<Rightarrow> string" where
  "TABLE_NAMES TABLE_VIDEO = ''VideoDynamoDBTable''"
| "TABLE_NAMES TABLE_CAPTION = ''CaptionDynamoDBTable''"
| "TABLE_NAMES TABLE_CONFIG = ''ConfigDynamoDBTable''"

text \<open>\<open>keyof typeof BUCKET_SUFFIXES\<close> and the table of suffixes it indexes.\<close>

datatype BucketType = BUCKET_VIDEO | BUCKET_AUDIO | BUCKET_TRANSCRIBE | BUCKET_PUBLIC

fun BUCKET_SUFFIXES :: "BucketType \<Rightarrow> string" where
  "BUCKET_SUFFIXES BUCKET_VIDEO = ''video''"
| "BUCKET_SUFFIXES BUCKET_AUDIO = ''audio''"
| "BUCKET_SUFFIXES BUCKET_TRANSCRIBE = ''transcribe''"
| "BUCKET_SUFFIXES BUCKET_PUBLIC = ''public''"

section \<open>Naming utilities (cdk/lib/utils/naming.ts)\<close>

text \<open>
  None of the functions of naming.ts has a \<open>throw\<close>, a branch or a length test: each
  returns its template literal for every argument, so each is a total function to
  \<^typ>\<open>string\<close>.
\<close>

definition getLambdaFunctionName :: "string \<Rightarrow> string" where
  "getLambdaFunctionName functionName = RESOURCE_PREFIX @ ''-'' @ functionName"

definition getLambdaLogGroupName :: "string \<Rightarrow> string" where
  "getLambdaLogGroupName functionName = ''/aws/lambda/'' @ getLambdaFunctionName functionName"

definition getS3BucketName :: "string \<Rightarrow> string \<Rightarrow> BucketType \<Rightarrow> string" where
  "getS3BucketName accountId region bucketType =
     RESOURCE_PREFIX @ ''-'' @ accountId @ ''-'' @ region @ ''-'' @ BUCKET_SUFFIXES bucketType"

definition getDynamoDBTableName :: "string \<Rightarrow> TableType \<Rightarrow> string" where
  "getDynamoDBTableName environment tableType =
     RESOURCE_PREFIX @ ''-'' @ environment @ ''-'' @ TABLE_NAMES tableType"

definition getIAMRoleName :: "string \<Rightarrow> string" where
  "getIAMRoleName roleName = RESOURCE_PREFIX @ ''-'' @ roleName"

definition getAPIGatewayName :: "string \<Rightarrow> string" where
  "getAPIGatewayName environment = RESOURCE_PREFIX @ ''-'' @ environment @ ''-api''"

definition getCloudFrontDescription :: "string \<Rightarrow> string" where
  "getCloudFrontDescription environment = ''Video Transcriber CDN - '' @ environment"

text \<open>
  \<open>getResourceTags\<close>: an object literal with three properties followed by the spread
  of the optional \<open>additionalTags\<close>. A \<open>Record<string, string>\<close> is a map; spreading
  \<open>undefined\<close> adds nothing; a spread property written after a literal one replaces it.
\<close>

definition getResourceTags :: "string \<Rightarrow> (string \<rightharpoonup> string) option \<Rightarrow> (string \<rightharpoonup> string)" where
  "getResourceTags environment additionalTags =
     [''Application'' \<mapsto> ''VideoTranscriber'',
      ''Environment'' \<mapsto> environment,
      ''ManagedBy'' \<mapsto> ''CDK'']
     ++ (case additionalTags of None \<Rightarrow> Map.empty | Some extra \<Rightarrow> extra)"

section \<open>Environment profiles (cdk/lib/config/environment-config.ts)\<close>

text \<open>The members of the library enumerations and unions that the three profiles use.\<close>

datatype RetentionDays = THREE_DAYS | ONE_WEEK | ONE_MONTH

datatype LogLevel = DEBUG | INFO | WARN | ERROR

datatype BillingMode = PAY_PER_REQUEST | PROVISIONED

datatype Duration = Duration_minutes nat

datatype PriceClass = PriceClass_100 | PriceClass_200 | PriceClass_All

datatype RemovalPolicy = RETAIN | DESTROY

record EnvironmentConfig =
  name :: string
  transcribeLanguage :: string
  logRetentionDays :: RetentionDays
  logLevel :: LogLevel
  enableXRay :: bool
  dynamoDBBillingMode :: BillingMode
  s3GlacierTransitionDays :: "nat option"
  s3ExpirationDays :: "nat option"
  apiThrottleRateLimit :: nat
  apiThrottleBurstLimit :: nat
  enableAPICache :: bool
  apiCacheTTL :: "Duration option"
  cloudFrontPriceClass :: PriceClass
  enableCloudFrontLogging :: bool
  removalPolicy :: RemovalPolicy

definition devConfig :: EnvironmentConfig where
  "devConfig = \<lparr>
     name = ''dev'',
     transcribeLanguage = ''en-US'',
     logRetentionDays = THREE_DAYS,
     logLevel = DEBUG,
     enableXRay = False,
     dynamoDBBillingMode = PAY_PER_REQUEST,
     s3GlacierTransitionDays = None,
     s3ExpirationDays = Some 7,
     apiThrottleRateLimit = 100,
     apiThrottleBurstLimit = 200,
     enableAPICache = False,
     apiCacheTTL = None,
     cloudFrontPriceClass = PriceClass_100,
     enableCloudFrontLogging = False,
     removalPolicy = DESTROY \<rparr>"

definition stagingConfig :: EnvironmentConfig where
  "stagingConfig = \<lparr>
     name = ''staging'',
     transcribeLanguage = ''en-US'',
     logRetentionDays = ONE_WEEK,
     logLevel = INFO,
     enableXRay = True,
     dynamoDBBillingMode = PAY_PER_REQUEST,
     s3GlacierTransitionDays = Some 30,
     s3ExpirationDays = Some 90,
     apiThrottleRateLimit = 500,
     apiThrottleBurstLimit = 1000,
     enableAPICache = True,
     apiCacheTTL = Some (Duration_minutes 5),
     cloudFrontPriceClass = PriceClass_100,
     enableCloudFrontLogging = True,
     removalPolicy = RETAIN \<rparr>"

definition prodConfig :: EnvironmentConfig where
  "prodConfig = \<lparr>
     name = ''prod'',
     transcribeLanguage = ''en-US'',
     logRetentionDays = ONE_MONTH,
     logLevel = WARN,
     enableXRay = True,
     dynamoDBBillingMode = PAY_PER_REQUEST,
     s3GlacierTransitionDays = Some 90,
     s3ExpirationDays = Some 365,
     apiThrottleRateLimit = 1000,
     apiThrottleBurstLimit = 2000,
     enableAPICache = True,
     apiCacheTTL = Some (Duration_minutes 10),
     cloudFrontPriceClass = PriceClass_200,
     enableCloudFrontLogging = True,
     removalPolicy = RETAIN \<rparr>"

text \<open>
  \<open>environments\<close> is a plain object literal. Its own properties, in insertion order
  (the order \<open>Object.keys\<close> lists them), are the association list below. Being an
  object literal, its prototype is \<open>Object.prototype\<close>, whose own property names
  are listed too: both the property read \<open>environments[key]\<close> and the operator
  \<open>key in environments\<close> follow the prototype chain.
\<close>

definition environments :: "(string \<times> EnvironmentConfig) list" where
  "environments = [(''dev'', devConfig), (''staging'', stagingConfig), (''prod'', prodConfig)]"

definition Object_prototype :: "string list" where
  "Object_prototype =
     [''constructor'', ''__defineGetter__'', ''__defineSetter__'', ''hasOwnProperty'',
      ''__lookupGetter__'', ''__lookupSetter__'', ''isPrototypeOf'',
      ''propertyIsEnumerable'', ''toString'', ''valueOf'', ''__proto__'',
      ''toLocaleString'']"

text \<open>
  What a property read on \<open>environments\<close> can yield: one of the profiles, or a member
  inherited from \<open>Object.prototype\<close> (a function, or for \<open>__proto__\<close> the prototype
  object itself). \<^const>\<open>None\<close> stands for \<open>undefined\<close>.
\<close>

datatype JSValue = Profile EnvironmentConfig | Inherited string

definition environments_get :: "string \<Rightarrow> JSValue option" where
  "environments_get key =
     (case map_of environments key of
        Some config \<Rightarrow> Some (Profile config)
      | None \<Rightarrow> if key \<in> set Object_prototype then Some (Inherited key) else None)"

definition environments_in :: "string \<Rightarrow> bool" where
  "environments_in key \<longleftrightarrow> key \<in> set (map fst environments @ Object_prototype)"

text \<open>
  \<open>String.prototype.toLowerCase\<close> on code units below 256: the ASCII capitals and the
  Latin-1 capitals (0xC0 to 0xDE without the multiplication sign 0xD7) move up by 32,
  every other code unit stays.
\<close>

definition toLowerCase_char :: "char \<Rightarrow> char" where
  "toLowerCase_char c =
     (let n = (of_char c :: nat)
      in if (65 \<le> n \<and> n \<le> 90) \<or> (192 \<le> n \<and> n \<le> 222 \<and> n \<noteq> 215)
         then char_of (n + 32) else c)"

definition toLowerCase :: "string \<Rightarrow> string" where
  "toLowerCase s = map toLowerCase_char s"

text \<open>\<open>Array.prototype.join\<close> on strings.\<close>

fun join :: "string \<Rightarrow> string list \<Rightarrow> string" where
  "join sep [] = []"
| "join sep [x] = x"
| "join sep (x # y # ys) = x @ sep @ join sep (y # ys)"

datatype JSError = Error string

text \<open>
  \<open>if (!config)\<close>: \<open>undefined\<close> is falsy, every object and function is truthy, so
  the throw is taken exactly when the property read yields \<open>undefined\<close>.
\<close>

definition getEnvironmentConfig :: "string \<Rightarrow> JSError + JSValue" where
  "getEnvironmentConfig environmentName =
     (case environments_get (toLowerCase environmentName) of
        None \<Rightarrow>
          Inl (Error (''Unknown environment: '' @ environmentName
                      @ ''. Valid environments are: '' @ join '', '' (map fst environments)))
      | Some config \<Rightarrow> Inr config)"

definition isValidEnvironment :: "string \<Rightarrow> bool" where
  "isValidEnvironment environmentName \<longleftrightarrow> environments_in (toLowerCase environmentName)"

section \<open>The stack (cdk/lib/video-transcriber-stack.ts)\<close>

text \<open>
  The fields of \<open>cdk.Environment\<close> and \<open>cdk.StackProps\<close> that the repository sets; all
  are optional in the library's declarations.
\<close>

record Environment =
  env_account :: "string option"
  env_region :: "string option"

record StackProps =
  env :: "Environment option"
  description :: "string option"
  tags :: "(string \<times> string) list option"

text \<open>
  \<open>interface VideoTranscriberStackProps extends cdk.StackProps\<close>. Its field
  \<open>transcribeLanguage\<close> is written \<open>props_transcribeLanguage\<close> here, the profile
  record having a field of the same name; for the same reason the fields of
  \<open>cdk.Environment\<close> and of \<open>CfnOutput\<close> carry the prefixes \<open>env_\<close> and \<open>output_\<close>.
\<close>

record VideoTranscriberStackProps = StackProps +
  props_transcribeLanguage :: string
  environment :: string
  retentionDays :: "int option"

text \<open>
  What the constructor body reads of \<open>this\<close> once \<open>super(scope, id, props)\<close> has run.
\<close>

record Stack =
  stackName :: string
  region :: string

record CfnOutput =
  output_id :: string
  output_value :: string
  output_description :: string

text \<open>
  The scope handed to the constructor: a \<open>cdk.App\<close>, of which only the context is
  recorded.
\<close>

record App =
  app_context :: "string \<rightharpoonup> string"

text \<open>
  The constructor \<open>constructor(scope, id, props)\<close>. Its first statement is
  \<open>super(scope, id, props)\<close>. The base class \<open>cdk.Stack\<close> belongs to aws-cdk-lib, not to
  the repository, so its constructor is the parameter \<open>super\<close>: it receives the scope,
  the id and the properties at the type \<open>cdk.StackProps\<close>, and it either throws
  (\<^const>\<open>Inl\<close>; the library refuses some ids and properties) or leaves \<open>this\<close>
  initialised (\<^const>\<open>Inr\<close>). A throw of \<open>super\<close> leaves the constructor at once. The
  rest of the body has no branch and no \<open>throw\<close>: three \<open>new cdk.CfnOutput(this, id,
  {value, description})\<close> statements, each under its own literal id and with a string
  value, recorded in this order. The result is \<open>this\<close> with the outputs added to it.
  Any object that has at least the fields of \<open>VideoTranscriberStackProps\<close> is accepted
  as \<open>props\<close> (an extensible record).
\<close>

definition VideoTranscriberStack ::
  "('scope \<Rightarrow> string \<Rightarrow> StackProps \<Rightarrow> 'err + Stack) \<Rightarrow> 'scope \<Rightarrow> string
     \<Rightarrow> 'a VideoTranscriberStackProps_scheme \<Rightarrow> 'err + Stack \<times> CfnOutput list" where
  "VideoTranscriberStack super scope stackId props =
     (case super scope stackId (StackProps.truncate props) of
        Inl err \<Rightarrow> Inl err
      | Inr this \<Rightarrow>
          Inr (this,
               [\<lparr>output_id = ''StackName'', output_value = stackName this,
                 output_description = ''Stack name''\<rparr>,
                \<lparr>output_id = ''Region'', output_value = region this,
                 output_description = ''AWS Region''\<rparr>,
                \<lparr>output_id = ''TranscribeLanguage'',
                 output_value = props_transcribeLanguage props,
                 output_description = ''Transcribe language setting''\<rparr>]))"

section \<open>Vocabulary of the specification that the source does not declare\<close>

text \<open>
  Modelled from the spec: the contract \<open>physicalName(kind, logicalName, environment,
  scope)\<close> of the Naming Engine. naming.ts has no such dispatcher; each kind is served
  by its own function, called here with exactly the arguments that function takes.
  The scope is the pair of account and region.
\<close>

datatype ResourceKind =
  LambdaFunction | LambdaLogGroup | S3Bucket BucketType | DynamoDBTable TableType
  | IAMRole | APIGateway

definition physicalName :: "ResourceKind \<Rightarrow> string \<Rightarrow> string \<Rightarrow> string \<times> string \<Rightarrow> string" where
  "physicalName kind logicalName environmentName scope =
     (case kind of
        LambdaFunction \<Rightarrow> getLambdaFunctionName logicalName
      | LambdaLogGroup \<Rightarrow> getLambdaLogGroupName logicalName
      | S3Bucket bucketType \<Rightarrow> getS3BucketName (fst scope) (snd scope) bucketType
      | DynamoDBTable tableType \<Rightarrow> getDynamoDBTableName environmentName tableType
      | IAMRole \<Rightarrow> getIAMRoleName logicalName
      | APIGateway \<Rightarrow> getAPIGatewayName environmentName)"

text \<open>
  Modelled from the spec: the records FunctionSpec and RoleSpec of the Configuration
  Model, and a configuration set that carries them next to the stack's properties. The
  source declares none of them; \<open>VideoTranscriberStackProps\<close> has three fields only.
\<close>

record FunctionSpec =
  logicalName :: string
  entryPoint :: string
  memorySize :: nat
  timeoutSeconds :: nat
  environmentVariables :: "(string \<times> string) list"
  role :: string

record RoleSpec =
  roleKind :: string
  trustedService :: string

record ConfigurationSet = VideoTranscriberStackProps +
  functionSpecs :: "FunctionSpec list"
  roleSpecs :: "RoleSpec list"

text \<open>
  Modelled from the spec: some FunctionSpec's role reference does not resolve to a
  declared RoleSpec kind.
\<close>

definition unresolved_role_reference :: "ConfigurationSet \<Rightarrow> bool" where
  "unresolved_role_reference cfg \<longleftrightarrow>
     list_ex (\<lambda>f. role f \<notin> set (map roleKind (roleSpecs cfg))) (functionSpecs cfg)"

section \<open>Facts about the naming utilities\<close>

lemmas naming_defs =
  getLambdaFunctionName_def getLambdaLogGroupName_def getS3BucketName_def
  getDynamoDBTableName_def getIAMRoleName_def getAPIGatewayName_def
  getCloudFrontDescription_def

subsection \<open>Cutting a name at its separators\<close>

lemma split_at_first:
  "c \<notin> set a1 \<Longrightarrow> c \<notin> set a2 \<Longrightarrow> a1 @ c # x = a2 @ c # y \<Longrightarrow> a1 = a2 \<and> x = y"
proof (induction a1 arbitrary: a2)
  case Nil
  then show ?case by (cases a2) auto
next
  case (Cons h t)
  then show ?case by (cases a2) auto
qed

lemma split_at_last:
  assumes "c \<notin> set s1" "c \<notin> set s2" "x @ c # s1 = y @ c # s2"
  shows "x = y \<and> s1 = s2"
proof -
  from assms(3) have "rev (x @ c # s1) = rev (y @ c # s2)" by simp
  then have "rev s1 @ c # rev x = rev s2 @ c # rev y" by simp
  with assms(1,2) have "rev s1 = rev s2 \<and> rev x = rev y"
    using split_at_first [of c "rev s1" "rev s2" "rev x" "rev y"] by simp
  then show ?thesis by simp
qed

lemma hyphen_free_BUCKET_SUFFIXES: "CHR ''-'' \<notin> set (BUCKET_SUFFIXES b)"
  by (cases b) simp_all

lemma hyphen_free_TABLE_NAMES: "CHR ''-'' \<notin> set (TABLE_NAMES t)"
  by (cases t) simp_all

lemma inj_BUCKET_SUFFIXES: "BUCKET_SUFFIXES b1 = BUCKET_SUFFIXES b2 \<Longrightarrow> b1 = b2"
  by (cases b1; cases b2) simp_all

lemma inj_TABLE_NAMES: "TABLE_NAMES t1 = TABLE_NAMES t2 \<Longrightarrow> t1 = t2"
  by (cases t1; cases t2) simp_all

lemma table_name_inj:
  assumes "getDynamoDBTableName e1 t1 = getDynamoDBTableName e2 t2"
  shows "e1 = e2 \<and> t1 = t2"
proof -
  from assms have "e1 @ CHR ''-'' # TABLE_NAMES t1 = e2 @ CHR ''-'' # TABLE_NAMES t2"
    by (simp add: getDynamoDBTableName_def)
  then have "e1 = e2 \<and> TABLE_NAMES t1 = TABLE_NAMES t2"
    using split_at_last [of "CHR ''-''" "TABLE_NAMES t1" "TABLE_NAMES t2" e1 e2]
    by (simp add: hyphen_free_TABLE_NAMES)
  then show ?thesis by (simp add: inj_TABLE_NAMES)
qed

lemma bucket_name_inj:
  assumes "CHR ''-'' \<notin> set a1" "CHR ''-'' \<notin> set a2"
    and "getS3BucketName a1 r1 b1 = getS3BucketName a2 r2 b2"
  shows "a1 = a2 \<and> r1 = r2 \<and> b1 = b2"
proof -
  from assms(3)
  have "a1 @ CHR ''-'' # (r1 @ CHR ''-'' # BUCKET_SUFFIXES b1)
      = a2 @ CHR ''-'' # (r2 @ CHR ''-'' # BUCKET_SUFFIXES b2)"
    by (simp add: getS3BucketName_def)
  with assms(1,2)
  have "a1 = a2 \<and> r1 @ CHR ''-'' # BUCKET_SUFFIXES b1 = r2 @ CHR ''-'' # BUCKET_SUFFIXES b2"
    by (rule split_at_first)
  then have a: "a1 = a2"
    and rest: "r1 @ CHR ''-'' # BUCKET_SUFFIXES b1 = r2 @ CHR ''-'' # BUCKET_SUFFIXES b2"
    by simp_all
  from rest have "r1 = r2 \<and> BUCKET_SUFFIXES b1 = BUCKET_SUFFIXES b2"
    using split_at_last [of "CHR ''-''" "BUCKET_SUFFIXES b1" "BUCKET_SUFFIXES b2" r1 r2]
    by (simp add: hyphen_free_BUCKET_SUFFIXES)
  with a show ?thesis by (simp add: inj_BUCKET_SUFFIXES)
qed

subsection \<open>Uniqueness across scopes\<close>

text \<open>
  C1, as stated, fails. Two different (account, region) scopes can give one bucket
  name, because the separator \<open>-\<close> may also occur inside the account id: account
  \<open>1-2\<close> with region \<open>3\<close> and account \<open>1\<close> with region \<open>2-3\<close> collide. And the names
  of Lambda functions (likewise log groups and roles) are built from the logical name
  alone, so the same function in the environments \<open>dev\<close> and \<open>prod\<close> gets the same
  physical name.
\<close>

theorem scopes_collide:
  "getS3BucketName ''1-2'' ''3'' BUCKET_VIDEO = getS3BucketName ''1'' ''2-3'' BUCKET_VIDEO
   \<and> (''1-2'', ''3'') \<noteq> (''1'', ''2-3'')
   \<and> physicalName LambdaFunction ''extractaudio'' ''dev'' (''123456789012'', ''us-east-1'')
     = physicalName LambdaFunction ''extractaudio'' ''prod'' (''123456789012'', ''us-east-1'')
   \<and> ''dev'' \<noteq> ''prod''"
  by (simp add: physicalName_def getS3BucketName_def)

text \<open>
  C1, amended. Table names are injective in the pair of environment and table type,
  and gateway names in the environment. Bucket names are injective in the triple of
  account, region and bucket type as long as the account ids contain no hyphen.
  Lambda function, log-group and role names take no environment or scope: they are
  injective in the logical name.
\<close>

theorem names_injective:
  "(getDynamoDBTableName e1 t1 = getDynamoDBTableName e2 t2 \<longleftrightarrow> e1 = e2 \<and> t1 = t2)
   \<and> (getAPIGatewayName e1 = getAPIGatewayName e2 \<longleftrightarrow> e1 = e2)
   \<and> (CHR ''-'' \<notin> set a1 \<and> CHR ''-'' \<notin> set a2 \<longrightarrow>
        (getS3BucketName a1 r1 b1 = getS3BucketName a2 r2 b2 \<longleftrightarrow> a1 = a2 \<and> r1 = r2 \<and> b1 = b2))
   \<and> (getLambdaFunctionName n1 = getLambdaFunctionName n2 \<longleftrightarrow> n1 = n2)
   \<and> (getLambdaLogGroupName n1 = getLambdaLogGroupName n2 \<longleftrightarrow> n1 = n2)
   \<and> (getIAMRoleName n1 = getIAMRoleName n2 \<longleftrightarrow> n1 = n2)"
proof (intro conjI impI)
  show "getDynamoDBTableName e1 t1 = getDynamoDBTableName e2 t2 \<longleftrightarrow> e1 = e2 \<and> t1 = t2"
    using table_name_inj by blast
  show "getAPIGatewayName e1 = getAPIGatewayName e2 \<longleftrightarrow> e1 = e2"
    by (simp add: getAPIGatewayName_def)
  show "getS3BucketName a1 r1 b1 = getS3BucketName a2 r2 b2 \<longleftrightarrow> a1 = a2 \<and> r1 = r2 \<and> b1 = b2"
    if "CHR ''-'' \<notin> set a1 \<and> CHR ''-'' \<notin> set a2"
    using that bucket_name_inj by blast
  show "getLambdaFunctionName n1 = getLambdaFunctionName n2 \<longleftrightarrow> n1 = n2"
    by (simp add: getLambdaFunctionName_def)
  show "getLambdaLogGroupName n1 = getLambdaLogGroupName n2 \<longleftrightarrow> n1 = n2"
    by (simp add: getLambdaLogGroupName_def getLambdaFunctionName_def)
  show "getIAMRoleName n1 = getIAMRoleName n2 \<longleftrightarrow> n1 = n2"
    by (simp add: getIAMRoleName_def)
qed

text \<open>
  C1, witness: two twelve-digit accounts in one region get different names for the
  video bucket.
\<close>

theorem names_injective_witness:
  "CHR ''-'' \<notin> set ''111111111111'' \<and> CHR ''-'' \<notin> set ''222222222222''
   \<and> getS3BucketName ''111111111111'' ''us-east-1'' BUCKET_VIDEO
       \<noteq> getS3BucketName ''222222222222'' ''us-east-1'' BUCKET_VIDEO"
  using names_injective [of e1 t1 e2 t2 "''111111111111''" "''222222222222''"
      "''us-east-1''" BUCKET_VIDEO "''us-east-1''" BUCKET_VIDEO n1 n2]
  by simp

subsection \<open>Length and character-set ceilings\<close>

text \<open>
  C2, as stated, fails: nothing is rejected. With a 64-character region the bucket
  namer returns a name of 101 characters, beyond the 63 that the provider allows for
  a bucket, and the table namer returns a name that contains a blank and an
  exclamation mark.
\<close>

theorem over_long_name_returned:
  "getS3BucketName ''123456789012'' (replicate 64 (CHR ''a'')) BUCKET_VIDEO
     = ''prod-aws-captions-123456789012-'' @ replicate 64 (CHR ''a'') @ ''-video''
   \<and> length (getS3BucketName ''123456789012'' (replicate 64 (CHR ''a'')) BUCKET_VIDEO) = 101
   \<and> 63 < length (getS3BucketName ''123456789012'' (replicate 64 (CHR ''a'')) BUCKET_VIDEO)
   \<and> getDynamoDBTableName ''Dev Env!'' TABLE_VIDEO
     = ''prod-aws-captions-Dev Env!-VideoDynamoDBTable''"
  by (simp add: naming_defs RESOURCE_PREFIX_def)

text \<open>
  C2, amended. No naming function rejects or shortens anything: each returns the full
  composition for every argument. Its length is a fixed overhead plus the lengths of
  the arguments, so it has no upper bound, and every character of an argument occurs
  in the result, so no character set is enforced.
\<close>

theorem names_never_truncated:
  "getS3BucketName a r b = ''prod-aws-captions-'' @ a @ ''-'' @ r @ ''-'' @ BUCKET_SUFFIXES b
   \<and> getDynamoDBTableName e t = ''prod-aws-captions-'' @ e @ ''-'' @ TABLE_NAMES t
   \<and> length (getLambdaFunctionName n) = 18 + length n
   \<and> length (getLambdaLogGroupName n) = 30 + length n
   \<and> length (getS3BucketName a r b) = 20 + length a + length r + length (BUCKET_SUFFIXES b)
   \<and> length (getDynamoDBTableName e t) = 19 + length e + length (TABLE_NAMES t)
   \<and> length (getIAMRoleName n) = 18 + length n
   \<and> length (getAPIGatewayName e) = 22 + length e
   \<and> set n \<subseteq> set (getLambdaFunctionName n)
   \<and> set n \<subseteq> set (getLambdaLogGroupName n)
   \<and> set n \<subseteq> set (getIAMRoleName n)
   \<and> set a \<union> set r \<subseteq> set (getS3BucketName a r b)
   \<and> set e \<subseteq> set (getDynamoDBTableName e t)
   \<and> set e \<subseteq> set (getAPIGatewayName e)"
  by (auto simp add: naming_defs RESOURCE_PREFIX_def)

subsection \<open>The application prefix\<close>

text \<open>
  C8, as stated, fails for log groups: the log-group name of a Lambda function begins
  with \<open>/aws/lambda/\<close>, not with the application prefix.
\<close>

theorem log_group_lacks_leading_prefix:
  "getLambdaLogGroupName ''extractaudio'' = ''/aws/lambda/prod-aws-captions-extractaudio''
   \<and> \<not> prefix RESOURCE_PREFIX (getLambdaLogGroupName ''extractaudio'')"
  by (simp add: naming_defs RESOURCE_PREFIX_def)

text \<open>
  C8, amended. The names of Lambda functions, buckets, tables, roles and API gateways
  begin with the application prefix and a hyphen. A log-group name is \<open>/aws/lambda/\<close>
  followed by the prefixed function name (its first twelve characters are
  \<open>/aws/lambda/\<close>, and what follows them is exactly the Lambda function name), so the
  prefix starts at its thirteenth character and never at its first.
\<close>

theorem names_carry_prefix:
  "prefix (RESOURCE_PREFIX @ ''-'') (getLambdaFunctionName n)
   \<and> prefix (RESOURCE_PREFIX @ ''-'') (getS3BucketName a r b)
   \<and> prefix (RESOURCE_PREFIX @ ''-'') (getDynamoDBTableName e t)
   \<and> prefix (RESOURCE_PREFIX @ ''-'') (getIAMRoleName n)
   \<and> prefix (RESOURCE_PREFIX @ ''-'') (getAPIGatewayName e)
   \<and> prefix ''/aws/lambda/'' (getLambdaLogGroupName n)
   \<and> prefix (RESOURCE_PREFIX @ ''-'') (drop 12 (getLambdaLogGroupName n))
   \<and> \<not> prefix RESOURCE_PREFIX (getLambdaLogGroupName n)
   \<and> take 12 (getLambdaLogGroupName n) = ''/aws/lambda/''
   \<and> drop 12 (getLambdaLogGroupName n) = getLambdaFunctionName n
   \<and> getLambdaLogGroupName n = ''/aws/lambda/'' @ RESOURCE_PREFIX @ ''-'' @ n"
  by (simp add: naming_defs RESOURCE_PREFIX_def)

text \<open>
  C10. The prefix put into every physical name is the literal \<open>prod-aws-captions\<close>,
  whatever environment is named: a Lambda function name is \<open>prod-aws-captions-\<close>
  followed by the function's name, and the names built for any environment, those of
  the \<open>dev\<close> and \<open>staging\<close> profiles among them, begin with \<open>prod-\<close>.
\<close>

theorem prefix_is_prod_literal:
  "RESOURCE_PREFIX = ''prod-aws-captions''
   \<and> getLambdaFunctionName n = ''prod-aws-captions-'' @ n
   \<and> getIAMRoleName n = ''prod-aws-captions-'' @ n
   \<and> getLambdaLogGroupName n = ''/aws/lambda/prod-aws-captions-'' @ n
   \<and> prefix (''prod-aws-captions-'' @ e @ ''-'') (getDynamoDBTableName e t)
   \<and> prefix (''prod-aws-captions-'' @ e @ ''-'') (getAPIGatewayName e)
   \<and> prefix ''prod-aws-captions-'' (getS3BucketName a r b)
   \<and> getDynamoDBTableName (name devConfig) TABLE_VIDEO
       = ''prod-aws-captions-dev-VideoDynamoDBTable''
   \<and> getAPIGatewayName (name stagingConfig) = ''prod-aws-captions-staging-api''"
  by (simp add: naming_defs RESOURCE_PREFIX_def devConfig_def stagingConfig_def)

subsection \<open>Tags\<close>

text \<open>
  C7. For every environment and every optional override map, the tags contain the
  keys \<open>Application\<close>, \<open>Environment\<close> and \<open>ManagedBy\<close>; a key of the override map
  has the override's value, also when it is one of the three standard keys; a key the
  override map lacks keeps its standard value; and without overrides the result is
  exactly the three standard pairs.
\<close>

theorem tags_override_wins:
  "{''Application'', ''Environment'', ''ManagedBy''} \<subseteq> dom (getResourceTags e extra)
   \<and> (extra = Some m \<and> m k = Some v \<longrightarrow> getResourceTags e extra k = Some v)
   \<and> (extra = Some m \<and> m k' = None \<longrightarrow> getResourceTags e extra k' = getResourceTags e None k')
   \<and> getResourceTags e None
       = [''Application'' \<mapsto> ''VideoTranscriber'', ''Environment'' \<mapsto> e, ''ManagedBy'' \<mapsto> ''CDK'']
   \<and> dom (getResourceTags e None) = {''Application'', ''Environment'', ''ManagedBy''}"
proof (intro conjI impI)
  show "{''Application'', ''Environment'', ''ManagedBy''} \<subseteq> dom (getResourceTags e extra)"
    by (cases extra) (auto simp add: getResourceTags_def)
  show "getResourceTags e extra k = Some v" if "extra = Some m \<and> m k = Some v"
    using that by (simp add: getResourceTags_def map_add_def)
  show "getResourceTags e extra k' = getResourceTags e None k'" if "extra = Some m \<and> m k' = None"
    using that by (simp add: getResourceTags_def map_add_def)
  show "getResourceTags e None
       = [''Application'' \<mapsto> ''VideoTranscriber'', ''Environment'' \<mapsto> e, ''ManagedBy'' \<mapsto> ''CDK'']"
    by (simp add: getResourceTags_def)
  show "dom (getResourceTags e None) = {''Application'', ''Environment'', ''ManagedBy''}"
    by (auto simp add: getResourceTags_def)
qed

text \<open>
  C7, witness: the override \<open>Environment = sandbox\<close> replaces the standard value
  \<open>dev\<close>, and \<open>Application\<close>, which the override map lacks, keeps its value.
\<close>

theorem tags_override_wins_witness:
  "[''Environment'' \<mapsto> ''sandbox'', ''Team'' \<mapsto> ''media''] ''Environment'' = Some ''sandbox''
   \<and> [''Environment'' \<mapsto> ''sandbox'', ''Team'' \<mapsto> ''media''] ''Application'' = None
   \<and> getResourceTags ''dev'' (Some [''Environment'' \<mapsto> ''sandbox'', ''Team'' \<mapsto> ''media''])
        ''Environment'' = Some ''sandbox''
   \<and> getResourceTags ''dev'' (Some [''Environment'' \<mapsto> ''sandbox'', ''Team'' \<mapsto> ''media''])
        ''Application'' = Some ''VideoTranscriber''"
  using tags_override_wins [of "''dev''"
      "Some [''Environment'' \<mapsto> ''sandbox'', ''Team'' \<mapsto> ''media'']"
      "[''Environment'' \<mapsto> ''sandbox'', ''Team'' \<mapsto> ''media'']"
      "''Environment''" "''sandbox''" "''Application''"]
  by simp

section \<open>Facts about the environment profiles\<close>

lemma toLowerCase_char_idem: "toLowerCase_char (toLowerCase_char c) = toLowerCase_char c"
  by (auto simp add: toLowerCase_char_def Let_def of_char_of)

lemma toLowerCase_idem: "toLowerCase (toLowerCase s) = toLowerCase s"
  by (simp add: toLowerCase_def toLowerCase_char_idem)

lemma environments_in_iff_get: "environments_in k \<longleftrightarrow> environments_get k \<noteq> None"
  by (auto simp add: environments_in_def environments_get_def environments_def
      split: option.splits)

lemmas lookup_defs =
  getEnvironmentConfig_def environments_get_def environments_def Object_prototype_def
  toLowerCase_def toLowerCase_char_def char_of_eq_iff

text \<open>
  The three known names select their profiles, in any capitalisation, and a name that
  is neither known nor on the prototype chain is refused with the documented message.
\<close>

lemma getEnvironmentConfig_known:
  "getEnvironmentConfig ''dev'' = Inr (Profile devConfig)"
  "getEnvironmentConfig ''staging'' = Inr (Profile stagingConfig)"
  "getEnvironmentConfig ''prod'' = Inr (Profile prodConfig)"
  "getEnvironmentConfig ''Staging'' = Inr (Profile stagingConfig)"
  by (simp_all add: lookup_defs)

lemma getEnvironmentConfig_refuses:
  assumes "toLowerCase s \<notin> set (map fst environments @ Object_prototype)"
  shows "getEnvironmentConfig s
         = Inl (Error (''Unknown environment: '' @ s
                       @ ''. Valid environments are: dev, staging, prod''))"
proof -
  from assms have "\<not> environments_in (toLowerCase s)"
    by (simp add: environments_in_def)
  then have "environments_get (toLowerCase s) = None"
    by (simp add: environments_in_iff_get)
  then show ?thesis
    by (simp add: getEnvironmentConfig_def environments_def)
qed

text \<open>
  Which names the lookup accepts: the three environments, and the two members of
  \<open>Object.prototype\<close> whose names are already lowercase. The other inherited names
  hold a capital letter, so no lowercased key can equal them.
\<close>

lemma lowercase_on_chain:
  "toLowerCase s \<in> set Object_prototype \<longleftrightarrow> toLowerCase s \<in> {''constructor'', ''__proto__''}"
proof
  assume on_chain: "toLowerCase s \<in> set Object_prototype"
  then have "toLowerCase (toLowerCase s) \<in> toLowerCase ` set Object_prototype"
    by (rule imageI)
  with on_chain
  have "toLowerCase s \<in> toLowerCase ` set Object_prototype \<inter> set Object_prototype"
    by (simp add: toLowerCase_idem)
  also have "toLowerCase ` set Object_prototype \<inter> set Object_prototype
             = {''constructor'', ''__proto__''}"
    by (simp add: Object_prototype_def toLowerCase_def toLowerCase_char_def char_of_eq_iff)
  finally show "toLowerCase s \<in> {''constructor'', ''__proto__''}" .
next
  assume "toLowerCase s \<in> {''constructor'', ''__proto__''}"
  then show "toLowerCase s \<in> set Object_prototype"
    by (auto simp add: Object_prototype_def)
qed

lemma lookup_returns_iff:
  "\<not> isl (getEnvironmentConfig s)
   \<longleftrightarrow> toLowerCase s \<in> {''dev'', ''staging'', ''prod'', ''constructor'', ''__proto__''}"
proof -
  have "\<not> isl (getEnvironmentConfig s) \<longleftrightarrow> environments_in (toLowerCase s)"
    by (simp add: getEnvironmentConfig_def environments_in_iff_get split: option.splits)
  also have "\<dots> \<longleftrightarrow> toLowerCase s \<in> {''dev'', ''staging'', ''prod''}
                    \<or> toLowerCase s \<in> set Object_prototype"
    by (auto simp add: environments_in_def environments_def)
  also have "\<dots> \<longleftrightarrow> toLowerCase s \<in> {''dev'', ''staging'', ''prod'', ''constructor'', ''__proto__''}"
    unfolding lowercase_on_chain by auto
  finally show ?thesis .
qed

text \<open>
  C6, evaluated at the failing input. \<open>constructor\<close> names no environment, yet the
  lookup does not throw: the property read finds \<open>Object.prototype.constructor\<close> on
  the prototype chain of the object literal, the value is truthy, and it is returned as
  if it were a profile. A name off the chain, such as \<open>production\<close>, is refused.
\<close>

theorem lookup_returns_inherited_member:
  "map_of environments ''constructor'' = None
   \<and> getEnvironmentConfig ''constructor'' = Inr (Inherited ''constructor'')
   \<and> getEnvironmentConfig ''__proto__'' = Inr (Inherited ''__proto__'')
   \<and> getEnvironmentConfig ''production''
       = Inl (Error ''Unknown environment: production. Valid environments are: dev, staging, prod'')"
  by (simp add: lookup_defs)

text \<open>
  C9. For every string, \<open>isValidEnvironment\<close> answers true exactly when
  \<open>getEnvironmentConfig\<close> returns instead of throwing. Both treat a string as they
  treat its lowercase form: the validity answer is the same, the lookup throws for one
  exactly when it throws for the other, and a value returned for one is returned for
  the other. (Only the text of the thrown message quotes the name as it was given.)
\<close>

theorem valid_iff_lookup_returns:
  "(isValidEnvironment s \<longleftrightarrow> \<not> isl (getEnvironmentConfig s))
   \<and> isValidEnvironment (toLowerCase s) = isValidEnvironment s
   \<and> isl (getEnvironmentConfig (toLowerCase s)) = isl (getEnvironmentConfig s)
   \<and> (getEnvironmentConfig (toLowerCase s) = Inr v \<longleftrightarrow> getEnvironmentConfig s = Inr v)"
  by (auto simp add: isValidEnvironment_def getEnvironmentConfig_def environments_in_iff_get
      toLowerCase_idem split: option.splits)

text \<open>The example of the claim: \<open>DEV\<close> and \<open>dev\<close> select the same profile.\<close>

lemma DEV_selects_dev:
  "getEnvironmentConfig ''DEV'' = Inr (Profile devConfig)"
  "getEnvironmentConfig ''DEV'' = getEnvironmentConfig ''dev''"
  "isValidEnvironment ''DEV''"
  by (simp_all add: lookup_defs isValidEnvironment_def environments_in_def)

section \<open>Facts about the stack\<close>

lemmas stack_defs = VideoTranscriberStack_def StackProps.truncate_def

text \<open>
  In the closed examples below the base constructor is given by its outcome for the
  call at hand: for the id \<open>TestStack\<close> and the region \<open>us-east-1\<close> it returns a
  stack of that name in that region.
\<close>

text \<open>
  C3, as stated, fails. A configuration set whose only FunctionSpec refers to the
  role kind \<open>mediaConvert\<close>, with no RoleSpec declared, is not rejected: the base
  constructor accepts the id and the stack properties, and the constructor completes
  with its three outputs.
\<close>

theorem unresolved_role_is_not_rejected:
  "unresolved_role_reference
     \<lparr>env = Some \<lparr>env_account = None, env_region = Some ''us-east-1''\<rparr>,
      description = None, tags = None,
      props_transcribeLanguage = ''en-US'', environment = ''dev'', retentionDays = None,
      functionSpecs = [\<lparr>logicalName = ''extractaudio'', entryPoint = ''extractaudio.handler'',
                         memorySize = 2048, timeoutSeconds = 600, environmentVariables = [],
                         role = ''mediaConvert''\<rparr>],
      roleSpecs = []\<rparr>
   \<and> VideoTranscriberStack
       (\<lambda>scope stackId props. Inr \<lparr>stackName = ''TestStack'', region = ''us-east-1''\<rparr>)
       \<lparr>app_context = Map.empty\<rparr> ''TestStack''
     \<lparr>env = Some \<lparr>env_account = None, env_region = Some ''us-east-1''\<rparr>,
      description = None, tags = None,
      props_transcribeLanguage = ''en-US'', environment = ''dev'', retentionDays = None,
      functionSpecs = [\<lparr>logicalName = ''extractaudio'', entryPoint = ''extractaudio.handler'',
                         memorySize = 2048, timeoutSeconds = 600, environmentVariables = [],
                         role = ''mediaConvert''\<rparr>],
      roleSpecs = []\<rparr>
     = (Inr (\<lparr>stackName = ''TestStack'', region = ''us-east-1''\<rparr>,
             [\<lparr>output_id = ''StackName'', output_value = ''TestStack'',
               output_description = ''Stack name''\<rparr>,
              \<lparr>output_id = ''Region'', output_value = ''us-east-1'',
               output_description = ''AWS Region''\<rparr>,
              \<lparr>output_id = ''TranscribeLanguage'', output_value = ''en-US'',
               output_description = ''Transcribe language setting''\<rparr>])
        :: JSError + Stack \<times> CfnOutput list)"
  by (simp add: unresolved_role_reference_def stack_defs)

text \<open>
  C3, amended. The stack constructor raises no error of its own and reads no
  FunctionSpec or RoleSpec. It throws exactly when the base constructor of the library
  throws for the scope, the id and the stack properties, and then with that error;
  whenever the base constructor returns, it completes with a stack that carries
  three outputs. The function and role records that accompany the properties reach
  neither the base constructor nor the result.
\<close>

theorem stack_fails_only_with_base_constructor:
  fixes cfg :: ConfigurationSet
  shows "(VideoTranscriberStack super scope stackId cfg = Inl err
            \<longleftrightarrow> super scope stackId (StackProps.truncate cfg) = Inl err)
         \<and> (super scope stackId (StackProps.truncate cfg) = Inr this \<longrightarrow>
              (\<exists>outs. VideoTranscriberStack super scope stackId cfg = Inr (this, outs)
                      \<and> length outs = 3))
         \<and> StackProps.truncate (cfg\<lparr>functionSpecs := fs, roleSpecs := rs\<rparr>)
              = StackProps.truncate cfg
         \<and> VideoTranscriberStack super scope stackId (cfg\<lparr>functionSpecs := fs, roleSpecs := rs\<rparr>)
              = VideoTranscriberStack super scope stackId cfg"
proof (intro conjI impI)
  show "VideoTranscriberStack super scope stackId cfg = Inl err
          \<longleftrightarrow> super scope stackId (StackProps.truncate cfg) = Inl err"
    by (cases "super scope stackId (StackProps.truncate cfg)")
       (simp_all add: VideoTranscriberStack_def)
  show "\<exists>outs. VideoTranscriberStack super scope stackId cfg = Inr (this, outs) \<and> length outs = 3"
    if "super scope stackId (StackProps.truncate cfg) = Inr this"
    using that by (simp add: VideoTranscriberStack_def)
  show "StackProps.truncate (cfg\<lparr>functionSpecs := fs, roleSpecs := rs\<rparr>) = StackProps.truncate cfg"
    by (simp add: StackProps.truncate_def)
  show "VideoTranscriberStack super scope stackId (cfg\<lparr>functionSpecs := fs, roleSpecs := rs\<rparr>)
          = VideoTranscriberStack super scope stackId cfg"
    by (simp add: stack_defs split: sum.splits)
qed

text \<open>
  C3, witness: the configuration set of the counterexample, with the base constructor
  returning.
\<close>

theorem stack_fails_only_with_base_constructor_witness:
  "\<exists>outs. VideoTranscriberStack
       (\<lambda>scope stackId props. Inr \<lparr>stackName = ''TestStack'', region = ''us-east-1''\<rparr>)
       \<lparr>app_context = Map.empty\<rparr> ''TestStack''
       \<lparr>env = Some \<lparr>env_account = None, env_region = Some ''us-east-1''\<rparr>,
        description = None, tags = None,
        props_transcribeLanguage = ''en-US'', environment = ''dev'', retentionDays = None,
        functionSpecs = [\<lparr>logicalName = ''extractaudio'', entryPoint = ''extractaudio.handler'',
                           memorySize = 2048, timeoutSeconds = 600, environmentVariables = [],
                           role = ''mediaConvert''\<rparr>],
        roleSpecs = []\<rparr>
     = (Inr (\<lparr>stackName = ''TestStack'', region = ''us-east-1''\<rparr>, outs)
        :: JSError + Stack \<times> CfnOutput list)
     \<and> length outs = 3"
  using stack_fails_only_with_base_constructor
    [of "\<lambda>scope stackId props. Inr \<lparr>stackName = ''TestStack'', region = ''us-east-1''\<rparr>"
        "\<lparr>app_context = Map.empty\<rparr>" "''TestStack''"
        "\<lparr>env = Some \<lparr>env_account = None, env_region = Some ''us-east-1''\<rparr>,
          description = None, tags = None,
          props_transcribeLanguage = ''en-US'', environment = ''dev'', retentionDays = None,
          functionSpecs = [\<lparr>logicalName = ''extractaudio'', entryPoint = ''extractaudio.handler'',
                             memorySize = 2048, timeoutSeconds = 600, environmentVariables = [],
                             role = ''mediaConvert''\<rparr>],
          roleSpecs = []\<rparr>"
        err "\<lparr>stackName = ''TestStack'', region = ''us-east-1''\<rparr>" "[]" "[]",
     THEN conjunct2, THEN conjunct1]
  by simp

text \<open>
  When the base constructor throws, the constructor throws the same error, whatever
  the properties hold.
\<close>

lemma base_constructor_throw_propagates:
  "VideoTranscriberStack (\<lambda>scope stackId props. Inl err) scope stackId props = Inl err"
  by (simp add: VideoTranscriberStack_def)

text \<open>
  C5, as stated, fails. The stack of the repository's own test (id \<open>TestStack\<close>,
  language \<open>zh-CN\<close>, environment \<open>dev\<close>), here in the region \<open>us-east-1\<close>, is built
  successfully, and its outputs are named \<open>StackName\<close>, \<open>Region\<close> and
  \<open>TranscribeLanguage\<close>: not the nine keys of the claim.
\<close>

theorem outputs_are_not_the_manifest_keys:
  "VideoTranscriberStack
       (\<lambda>scope stackId props. Inr \<lparr>stackName = ''TestStack'', region = ''us-east-1''\<rparr>)
       \<lparr>app_context = Map.empty\<rparr> ''TestStack''
       \<lparr>env = Some \<lparr>env_account = None, env_region = Some ''us-east-1''\<rparr>,
        description = None, tags = None,
        props_transcribeLanguage = ''zh-CN'', environment = ''dev'', retentionDays = None\<rparr>
     = (Inr (\<lparr>stackName = ''TestStack'', region = ''us-east-1''\<rparr>,
             [\<lparr>output_id = ''StackName'', output_value = ''TestStack'',
               output_description = ''Stack name''\<rparr>,
              \<lparr>output_id = ''Region'', output_value = ''us-east-1'',
               output_description = ''AWS Region''\<rparr>,
              \<lparr>output_id = ''TranscribeLanguage'', output_value = ''zh-CN'',
               output_description = ''Transcribe language setting''\<rparr>])
        :: JSError + Stack \<times> CfnOutput list)
   \<and> {''StackName'', ''Region'', ''TranscribeLanguage''}
     \<noteq> {''ApiUrl'', ''DistributionUrl'', ''VideoBucketName'', ''AudioBucketName'',
         ''TranscribeBucketName'', ''PublicBucketName'', ''VideoTableName'',
         ''CaptionTableName'', ''ConfigTableName''}"
proof -
  have "''StackName'' \<in> {''StackName'', ''Region'', ''TranscribeLanguage''}"
    by simp
  moreover have "''StackName'' \<notin> {''ApiUrl'', ''DistributionUrl'', ''VideoBucketName'',
       ''AudioBucketName'', ''TranscribeBucketName'', ''PublicBucketName'', ''VideoTableName'',
       ''CaptionTableName'', ''ConfigTableName''}"
    by simp
  ultimately have "{''StackName'', ''Region'', ''TranscribeLanguage''}
     \<noteq> {''ApiUrl'', ''DistributionUrl'', ''VideoBucketName'', ''AudioBucketName'',
         ''TranscribeBucketName'', ''PublicBucketName'', ''VideoTableName'',
         ''CaptionTableName'', ''ConfigTableName''}"
    by metis
  then show ?thesis
    by (simp add: stack_defs)
qed

text \<open>
  C5, amended. Whenever the constructor completes, for every base constructor, scope,
  construct id and properties object, the outputs of the stack are exactly
  \<open>StackName\<close>, \<open>Region\<close> and \<open>TranscribeLanguage\<close>, in this order, carrying the
  stack's name, the stack's region and the transcription language of the properties;
  the stack is the one the base constructor returned.
\<close>

theorem outputs_are_three_fixed_keys:
  assumes "VideoTranscriberStack super scope stackId props = Inr (this, outs)"
  shows "map output_id outs = [''StackName'', ''Region'', ''TranscribeLanguage'']
         \<and> set (map output_id outs) = {''StackName'', ''Region'', ''TranscribeLanguage''}
         \<and> map output_value outs = [stackName this, region this, props_transcribeLanguage props]
         \<and> super scope stackId (StackProps.truncate props) = Inr this"
  using assms
  by (cases "super scope stackId (StackProps.truncate props)")
     (auto simp add: VideoTranscriberStack_def)

text \<open>
  C5, witness: the stack of the counterexample completes, and its outputs are the
  three keys with their values.
\<close>

theorem outputs_are_three_fixed_keys_witness:
  "VideoTranscriberStack
       (\<lambda>scope stackId props. Inr \<lparr>stackName = ''TestStack'', region = ''us-east-1''\<rparr>)
       \<lparr>app_context = Map.empty\<rparr> ''TestStack''
       \<lparr>env = Some \<lparr>env_account = None, env_region = Some ''us-east-1''\<rparr>,
        description = None, tags = None,
        props_transcribeLanguage = ''zh-CN'', environment = ''dev'', retentionDays = None\<rparr>
     = (Inr (\<lparr>stackName = ''TestStack'', region = ''us-east-1''\<rparr>,
             [\<lparr>output_id = ''StackName'', output_value = ''TestStack'',
               output_description = ''Stack name''\<rparr>,
              \<lparr>output_id = ''Region'', output_value = ''us-east-1'',
               output_description = ''AWS Region''\<rparr>,
              \<lparr>output_id = ''TranscribeLanguage'', output_value = ''zh-CN'',
               output_description = ''Transcribe language setting''\<rparr>])
        :: JSError + Stack \<times> CfnOutput list)
   \<and> map output_value
        [\<lparr>output_id = ''StackName'', output_value = ''TestStack'',
          output_description = ''Stack name''\<rparr>,
         \<lparr>output_id = ''Region'', output_value = ''us-east-1'',
          output_description = ''AWS Region''\<rparr>,
         \<lparr>output_id = ''TranscribeLanguage'', output_value = ''zh-CN'',
          output_description = ''Transcribe language setting''\<rparr>]
       = [''TestStack'', ''us-east-1'', ''zh-CN'']"
proof -
  have run: "VideoTranscriberStack
       (\<lambda>scope stackId props. Inr \<lparr>stackName = ''TestStack'', region = ''us-east-1''\<rparr>)
       \<lparr>app_context = Map.empty\<rparr> ''TestStack''
       \<lparr>env = Some \<lparr>env_account = None, env_region = Some ''us-east-1''\<rparr>,
        description = None, tags = None,
        props_transcribeLanguage = ''zh-CN'', environment = ''dev'', retentionDays = None\<rparr>
     = (Inr (\<lparr>stackName = ''TestStack'', region = ''us-east-1''\<rparr>,
             [\<lparr>output_id = ''StackName'', output_value = ''TestStack'',
               output_description = ''Stack name''\<rparr>,
              \<lparr>output_id = ''Region'', output_value = ''us-east-1'',
               output_description = ''AWS Region''\<rparr>,
              \<lparr>output_id = ''TranscribeLanguage'', output_value = ''zh-CN'',
               output_description = ''Transcribe language setting''\<rparr>])
        :: JSError + Stack \<times> CfnOutput list)"
    by (simp add: stack_defs)
  from outputs_are_three_fixed_keys [OF run] run show ?thesis
    by simp
qed

end
